theory Spec2Isabelle
  imports Complex_Main "HOL-Library.Word"
begin

section \<open>Numbers\<close>

text \<open>
  The trainer computes on C++ \<open>double\<close>. A \<open>double\<close> is modelled by its value: a finite
  number, one of the two infinities, or not-a-number. The rounding of finite results is left
  out, and zero carries no sign. A sum, product or quotient whose exact value lies at or
  beyond the bound from which rounding to nearest gives an infinity is that infinity. The
  special values follow IEEE 754, so that a division by zero is visible in the model as an
  infinity or a NaN and not as HOL's \<open>x / 0 = 0\<close>.
\<close>

datatype double = Fin real | PInf | NInf | NaN

text \<open>
  The largest \<open>double\<close> is \<open>2^1024 - 2^971\<close>; a value rounds to an infinity from half a unit
  in the last place above it.
\<close>

definition overflow_threshold :: real where
  "overflow_threshold = 2 ^ 1024 - 2 ^ 970"

definition to_double :: "real \<Rightarrow> double" where
  "to_double x =
     (if overflow_threshold \<le> x then PInf
      else if x \<le> - overflow_threshold then NInf
      else Fin x)"

fun dneg :: "double \<Rightarrow> double" where
  "dneg (Fin a) = Fin (- a)"
| "dneg PInf = NInf"
| "dneg NInf = PInf"
| "dneg NaN = NaN"

fun dadd :: "double \<Rightarrow> double \<Rightarrow> double" where
  "dadd NaN y = NaN"
| "dadd x NaN = NaN"
| "dadd (Fin a) (Fin b) = to_double (a + b)"
| "dadd PInf NInf = NaN"
| "dadd NInf PInf = NaN"
| "dadd PInf y = PInf"
| "dadd x PInf = PInf"
| "dadd NInf y = NInf"
| "dadd x NInf = NInf"

definition dsub :: "double \<Rightarrow> double \<Rightarrow> double" where
  "dsub x y = dadd x (dneg y)"

fun dmul :: "double \<Rightarrow> double \<Rightarrow> double" where
  "dmul NaN y = NaN"
| "dmul x NaN = NaN"
| "dmul (Fin a) (Fin b) = to_double (a * b)"
| "dmul (Fin a) PInf = (if a = 0 then NaN else if 0 < a then PInf else NInf)"
| "dmul (Fin a) NInf = (if a = 0 then NaN else if 0 < a then NInf else PInf)"
| "dmul PInf (Fin b) = (if b = 0 then NaN else if 0 < b then PInf else NInf)"
| "dmul NInf (Fin b) = (if b = 0 then NaN else if 0 < b then NInf else PInf)"
| "dmul PInf PInf = PInf"
| "dmul PInf NInf = NInf"
| "dmul NInf PInf = NInf"
| "dmul NInf NInf = PInf"

fun ddiv :: "double \<Rightarrow> double \<Rightarrow> double" where
  "ddiv NaN y = NaN"
| "ddiv x NaN = NaN"
| "ddiv (Fin a) (Fin b) =
     (if b \<noteq> 0 then to_double (a / b)
      else if a = 0 then NaN else if 0 < a then PInf else NInf)"
| "ddiv (Fin a) PInf = Fin 0"
| "ddiv (Fin a) NInf = Fin 0"
| "ddiv PInf (Fin b) = (if 0 \<le> b then PInf else NInf)"
| "ddiv NInf (Fin b) = (if 0 \<le> b then NInf else PInf)"
| "ddiv PInf PInf = NaN"
| "ddiv PInf NInf = NaN"
| "ddiv NInf PInf = NaN"
| "ddiv NInf NInf = NaN"

fun dsqrt :: "double \<Rightarrow> double" where
  "dsqrt (Fin a) = (if 0 \<le> a then Fin (sqrt a) else NaN)"
| "dsqrt PInf = PInf"
| "dsqrt NInf = NaN"
| "dsqrt NaN = NaN"

text \<open>The comparison \<open>x <= y\<close> of two doubles: false as soon as one side is a NaN.\<close>

fun dle :: "double \<Rightarrow> double \<Rightarrow> bool" where
  "dle NaN y = False"
| "dle x NaN = False"
| "dle (Fin a) (Fin b) = (a \<le> b)"
| "dle NInf y = True"
| "dle x PInf = True"
| "dle PInf y = False"
| "dle x NInf = False"

fun is_finite :: "double \<Rightarrow> bool" where
  "is_finite (Fin a) = True"
| "is_finite x = False"

text \<open>\<open>blitz::pow2(x)\<close> is \<open>x * x\<close>.\<close>

definition pow2 :: "double \<Rightarrow> double" where
  "pow2 x = dmul x x"

text \<open>
  Sizes are \<open>size_t\<close>, taken as 64 bits wide. They are natural numbers in the model, read
  from the lengths of the data; the one subtraction the trainer performs on them,
  \<open>n_samples-1\<close>, is written out with its wrap-around at zero. The source also keeps
  \<open>n_sigma\<close> and the extents of its arrays in \<open>int\<close>; the sizes are taken to fit. The
  conversion of a size or of an element count to \<open>double\<close> is exact in the model.
\<close>

definition size_t_sub :: "nat \<Rightarrow> nat \<Rightarrow> nat" where
  "size_t_sub a b = unat ((word_of_nat a :: 64 word) - word_of_nat b)"

definition double_of_size :: "nat \<Rightarrow> double" where
  "double_of_size n = Fin (real n)"

section \<open>Arrays\<close>

text \<open>
  A \<open>blitz::Array<double,1>\<close> is the list of its elements. A \<open>blitz::Array<double,2>\<close> is
  its two extents and its elements by index, so that an array with an extent of zero keeps
  the other extent. A freshly constructed array holds whatever the memory held; the model
  puts a fixed value there, on which nothing below depends.
\<close>

type_synonym array1 = "double list"

record array2 =
  extent0 :: nat
  extent1 :: nat
  elem :: "nat \<Rightarrow> nat \<Rightarrow> double"

definition uninitialised :: double where
  "uninitialised = NaN"

definition new_array1 :: "nat \<Rightarrow> array1" where
  "new_array1 n = replicate n uninitialised"

definition new_array2 :: "nat \<Rightarrow> nat \<Rightarrow> array2" where
  "new_array2 n0 n1 = \<lparr>extent0 = n0, extent1 = n1, elem = (\<lambda>r c. uninitialised)\<rparr>"

text \<open>
  \<open>a.resize(n)\<close> gives the array \<open>n\<close> elements and does not keep the old ones.
\<close>

definition resize_array1 :: "nat \<Rightarrow> array1 \<Rightarrow> array1" where
  "resize_array1 n a = new_array1 n"

text \<open>\<open>data(all,i) = v\<close>: the column \<open>i\<close> of \<open>data\<close> takes the elements of \<open>v\<close>.\<close>

definition assign_column :: "array2 \<Rightarrow> nat \<Rightarrow> array1 \<Rightarrow> array2" where
  "assign_column data i v =
     data\<lparr>elem := (\<lambda>r c. if c = i \<and> r < extent0 data then v ! r else elem data r c)\<rparr>"

text \<open>\<open>data(all,i) -= v\<close>.\<close>

definition subtract_column :: "array2 \<Rightarrow> nat \<Rightarrow> array1 \<Rightarrow> array2" where
  "subtract_column data i v =
     data\<lparr>elem := (\<lambda>r c. if c = i \<and> r < extent0 data then dsub (elem data r c) (v ! r)
                          else elem data r c)\<rparr>"

text \<open>
  \<open>blitz::mean(data, j)\<close> with \<open>j\<close> the second index: for each first index, the sum of the
  elements along the second, accumulated from zero in index order, divided by their count.
\<close>

definition mean_secondIndex :: "array2 \<Rightarrow> array1" where
  "mean_secondIndex data =
     map (\<lambda>r. ddiv (foldl dadd (Fin 0) (map (elem data r) [0..<extent1 data]))
                   (double_of_size (extent1 data)))
         [0..<extent0 data]"

text \<open>\<open>U.transposeSelf(1,0)\<close> exchanges the two dimensions.\<close>

definition transposeSelf :: "array2 \<Rightarrow> array2" where
  "transposeSelf a = \<lparr>extent0 = extent1 a, extent1 = extent0 a, elem = (\<lambda>r c. elem a c r)\<rparr>"

section \<open>The collaborators of the trainer\<close>

text \<open>
  Modelled from the spec: the element kinds of \<open>core/array_type.h\<close>, a header whose
  text is not available. The trainer names \<open>t_float64\<close> only, and compares with it.
\<close>

datatype ElementType =
  t_unknown | t_bool
  | t_int8 | t_int16 | t_int32 | t_int64
  | t_uint8 | t_uint16 | t_uint32 | t_uint64
  | t_float32 | t_float64 | t_float128
  | t_complex64 | t_complex128 | t_complex256

text \<open>
  Modelled from the spec: the sample source \<open>io::Arrayset\<close>, whose source is not
  available. It exposes its element type, the rank and the shape of its samples, their
  count, and each sample by position as a vector of numbers.
\<close>

record Arrayset =
  elementType :: ElementType
  ndim :: nat
  shape :: "nat list"
  arrays :: "array1 list"

definition getElementType :: "Arrayset \<Rightarrow> ElementType" where
  "getElementType ar = elementType ar"

definition getNDim :: "Arrayset \<Rightarrow> nat" where
  "getNDim ar = ndim ar"

definition getShape :: "Arrayset \<Rightarrow> nat list" where
  "getShape ar = shape ar"

definition size_of :: "Arrayset \<Rightarrow> nat" where
  "size_of ar = length (arrays ar)"

definition get :: "Arrayset \<Rightarrow> nat \<Rightarrow> array1" where
  "get ar i = arrays ar ! i"


text \<open>
  Modelled from the spec: the transform \<open>machine::LinearMachine\<close>, whose source is
  not available. It holds an input subtraction vector, an input division and biases,
  each set from a scalar (broadcast) or from a vector, and a weight matrix whose rows are the
  output axes; it is resized to a number of inputs and outputs, and each part has its setter.
\<close>

datatype factor = Scalar double | PerAxis array1

record LinearMachine =
  n_inputs :: nat
  n_outputs :: nat
  input_sub :: array1
  input_div :: factor
  biases :: factor
  weights :: array2

definition resize :: "nat \<Rightarrow> nat \<Rightarrow> LinearMachine \<Rightarrow> LinearMachine" where
  "resize n_in n_out m = m\<lparr>n_inputs := n_in, n_outputs := n_out\<rparr>"

definition setInputSubtraction :: "array1 \<Rightarrow> LinearMachine \<Rightarrow> LinearMachine" where
  "setInputSubtraction v m = m\<lparr>input_sub := v\<rparr>"

definition setInputDivision :: "factor \<Rightarrow> LinearMachine \<Rightarrow> LinearMachine" where
  "setInputDivision v m = m\<lparr>input_div := v\<rparr>"

definition setBiases :: "factor \<Rightarrow> LinearMachine \<Rightarrow> LinearMachine" where
  "setBiases v m = m\<lparr>biases := v\<rparr>"

definition setWeights :: "array2 \<Rightarrow> LinearMachine \<Rightarrow> LinearMachine" where
  "setWeights w m = m\<lparr>weights := w\<rparr>"

text \<open>
  What a call can throw: the two errors of the trainer, each with the value found and the
  value expected, and the failure of the decomposition.
\<close>

datatype exception =
  TypeError ElementType ElementType
  | DimensionError nat nat
  | DecompositionError

text \<open>
  The source of the decomposition \<open>math::svd_(A, U, sigma)\<close> is not available: it is a
  parameter of the model, \<open>svd\<close>. It is given the matrix and the two arrays the trainer has
  allocated for the results, and either throws or gives these two arrays back, filled.
\<close>

type_synonym svd_fn = "array2 \<Rightarrow> array2 \<Rightarrow> array1 \<Rightarrow> exception + array2 \<times> array1"

section \<open>The trainer\<close>

record SVDPCATrainer =
  m_zscore_convert :: bool

definition SVDPCATrainer_of :: "bool \<Rightarrow> SVDPCATrainer" where
  "SVDPCATrainer_of zscore_convert = \<lparr>m_zscore_convert = zscore_convert\<rparr>"

definition SVDPCATrainer_default :: SVDPCATrainer where
  "SVDPCATrainer_default = \<lparr>m_zscore_convert = False\<rparr>"

definition SVDPCATrainer_copy :: "SVDPCATrainer \<Rightarrow> SVDPCATrainer" where
  "SVDPCATrainer_copy other = \<lparr>m_zscore_convert = m_zscore_convert other\<rparr>"

definition assign :: "SVDPCATrainer \<Rightarrow> SVDPCATrainer \<Rightarrow> SVDPCATrainer" where
  "assign this other = this\<lparr>m_zscore_convert := m_zscore_convert other\<rparr>"

text \<open>
  \<open>train\<close> writes through two references, the machine and the eigenvalues, and returns
  nothing or throws. The model returns how the call ended together with the two objects as
  the call leaves them.
\<close>

datatype outcome = Returned | Raised exception

record after_train =
  ended :: outcome
  machine_after :: LinearMachine
  eigen_values_after :: array1

text \<open>The first loop: every sample is copied into its column.\<close>

definition load_data :: "Arrayset \<Rightarrow> nat \<Rightarrow> array2 \<Rightarrow> array2" where
  "load_data ar n_samples data =
     foldl (\<lambda>d i. assign_column d i (get ar i)) data [0..<n_samples]"

text \<open>The second loop: the mean is taken off every column.\<close>

definition remove_mean :: "array1 \<Rightarrow> nat \<Rightarrow> array2 \<Rightarrow> array2" where
  "remove_mean mean n_samples data =
     foldl (\<lambda>d i. subtract_column d i mean) data [0..<n_samples]"

text \<open>The mean of the training data, and the matrix handed to the decomposition.\<close>

definition training_mean :: "Arrayset \<Rightarrow> array1" where
  "training_mean ar =
     (let n_samples = size_of ar;
          n_features = getShape ar ! 0;
          data = load_data ar n_samples (new_array2 n_features n_samples)
      in mean_secondIndex data)"

definition centred_data :: "Arrayset \<Rightarrow> array2" where
  "centred_data ar =
     (let n_samples = size_of ar;
          n_features = getShape ar ! 0;
          data = load_data ar n_samples (new_array2 n_features n_samples);
          mean = mean_secondIndex data
      in remove_mean mean n_samples data)"

text \<open>The part of \<open>train\<close> after the decomposition has returned \<open>U\<close> and \<open>sigma\<close>.\<close>

definition set_machine ::
  "SVDPCATrainer \<Rightarrow> LinearMachine \<Rightarrow> array1 \<Rightarrow> nat \<Rightarrow> nat \<Rightarrow> array1 \<Rightarrow> array2 \<Rightarrow> array1
     \<Rightarrow> after_train"
where
  "set_machine this machine eigen_values n_features n_samples mean U sigma =
     (let n_sigma = min n_features n_samples;
          machine = resize n_features (min n_features n_samples) machine;
          machine = setInputSubtraction mean machine;
          machine = setInputDivision (Scalar (Fin 1)) machine;
          machine = setBiases (Scalar (Fin 0)) machine;
          U = transposeSelf U;
          machine = setWeights U machine;
          eigen_values = resize_array1 n_sigma eigen_values;
          eigen_values =
            map (\<lambda>i. ddiv (pow2 (sigma ! i)) (double_of_size (size_t_sub n_samples 1)))
                [0..<length eigen_values];
          machine =
            (if m_zscore_convert this
             then (let tmp = new_array1 (length eigen_values);
                       tmp = map (\<lambda>i. dsqrt (eigen_values ! i)) [0..<length tmp]
                   in setInputDivision (PerAxis tmp) machine)
             else machine)
      in \<lparr>ended = Returned, machine_after = machine, eigen_values_after = eigen_values\<rparr>)"

definition train ::
  "SVDPCATrainer \<Rightarrow> svd_fn \<Rightarrow> LinearMachine \<Rightarrow> array1 \<Rightarrow> Arrayset \<Rightarrow> after_train"
where
  "train this svd machine eigen_values ar =
     (if getElementType ar \<noteq> t_float64
      then \<lparr>ended = Raised (TypeError (getElementType ar) t_float64),
            machine_after = machine, eigen_values_after = eigen_values\<rparr>
      else if getNDim ar \<noteq> 1
      then \<lparr>ended = Raised (DimensionError (getNDim ar) 1),
            machine_after = machine, eigen_values_after = eigen_values\<rparr>
      else
        (let n_samples = size_of ar;
             n_features = getShape ar ! 0;
             data = load_data ar n_samples (new_array2 n_features n_samples);
             mean = mean_secondIndex data;
             data = remove_mean mean n_samples data;
             n_sigma = min n_features n_samples;
             U = new_array2 n_features n_sigma;
             sigma = new_array1 n_sigma
         in case svd data U sigma of
              Inl e \<Rightarrow>
                \<lparr>ended = Raised e, machine_after = machine, eigen_values_after = eigen_values\<rparr>
            | Inr (U, sigma) \<Rightarrow>
                set_machine this machine eigen_values n_features n_samples mean U sigma))"

text \<open>The overload without the eigenvalues: what it leaves is the outcome and the machine.\<close>

definition train2 ::
  "SVDPCATrainer \<Rightarrow> svd_fn \<Rightarrow> LinearMachine \<Rightarrow> Arrayset \<Rightarrow> outcome \<times> LinearMachine"
where
  "train2 this svd machine ar =
     (let throw_away = [];
          r = train this svd machine throw_away ar
      in (ended r, machine_after r))"

section \<open>Names for the statements\<close>

text \<open>
  The sizes \<open>train\<close> reads from a sample source, and the call of the decomposition it makes
  on that source.
\<close>

abbreviation n_samples_of :: "Arrayset \<Rightarrow> nat" where
  "n_samples_of ar \<equiv> size_of ar"

abbreviation n_features_of :: "Arrayset \<Rightarrow> nat" where
  "n_features_of ar \<equiv> getShape ar ! 0"

abbreviation n_sigma_of :: "Arrayset \<Rightarrow> nat" where
  "n_sigma_of ar \<equiv> min (n_features_of ar) (n_samples_of ar)"

abbreviation svd_call :: "svd_fn \<Rightarrow> Arrayset \<Rightarrow> exception + array2 \<times> array1" where
  "svd_call svd ar \<equiv>
     svd (centred_data ar) (new_array2 (n_features_of ar) (n_sigma_of ar))
       (new_array1 (n_sigma_of ar))"



text \<open>Non-negative and in non-increasing order, in the comparison of doubles.\<close>

definition non_negative :: "double list \<Rightarrow> bool" where
  "non_negative xs \<longleftrightarrow> list_all (\<lambda>x. dle (Fin 0) x) xs"

definition non_increasing :: "double list \<Rightarrow> bool" where
  "non_increasing xs \<longleftrightarrow> sorted_wrt (\<lambda>x y. dle y x) xs"

section \<open>Sample sources and decompositions to run the trainer on\<close>

definition rows_of :: "array2 \<Rightarrow> double list list" where
  "rows_of a = map (\<lambda>r. map (elem a r) [0..<extent1 a]) [0..<extent0 a]"

definition empty_machine :: LinearMachine where
  "empty_machine =
     \<lparr>n_inputs = 0, n_outputs = 0, input_sub = [], input_div = Scalar (Fin 1),
      biases = Scalar (Fin 0), weights = new_array2 0 0\<rparr>"

text \<open>
  Five samples of two features, which vary along the first feature only. Their mean is
  \<open>(3, 0)\<close>; the centred matrix has the rows \<open>(-2, 2, -2, 2, 0)\<close> and zero, so its singular
  values are 4 and 0 and its left singular vectors are the two unit vectors.
\<close>

definition example_source :: Arrayset where
  "example_source =
     \<lparr>elementType = t_float64, ndim = 1, shape = [2],
      arrays = [[Fin 1, Fin 0], [Fin 5, Fin 0], [Fin 1, Fin 0], [Fin 5, Fin 0],
                [Fin 3, Fin 0]]\<rparr>"

definition identity2 :: array2 where
  "identity2 = \<lparr>extent0 = 2, extent1 = 2, elem = (\<lambda>r c. if r = c then Fin 1 else Fin 0)\<rparr>"

definition example_svd :: svd_fn where
  "example_svd A U sigma =
     (if rows_of A = [[Fin (- 2), Fin 2, Fin (- 2), Fin 2, Fin 0],
                      [Fin 0, Fin 0, Fin 0, Fin 0, Fin 0]]
      then Inr (identity2, [Fin 4, Fin 0])
      else Inl DecompositionError)"

text \<open>A source of integers, a source of matrices, and a source of matrices of integers.\<close>

definition int_source :: Arrayset where
  "int_source =
     \<lparr>elementType = t_int32, ndim = 1, shape = [2], arrays = [[Fin 1, Fin 0], [Fin 3, Fin 0]]\<rparr>"

definition matrix_source :: Arrayset where
  "matrix_source =
     \<lparr>elementType = t_float64, ndim = 2, shape = [2, 2],
      arrays = [[Fin 1, Fin 0, Fin 0, Fin 1]]\<rparr>"

definition int_matrix_source :: Arrayset where
  "int_matrix_source =
     \<lparr>elementType = t_int32, ndim = 2, shape = [2, 2],
      arrays = [[Fin 1, Fin 0, Fin 0, Fin 1]]\<rparr>"

text \<open>
  A single sample of one feature. Centred, it is the 1 x 1 zero matrix, whose singular
  value is 0.
\<close>

definition single_source :: Arrayset where
  "single_source = \<lparr>elementType = t_float64, ndim = 1, shape = [1], arrays = [[Fin 5]]\<rparr>"

definition identity1 :: array2 where
  "identity1 = \<lparr>extent0 = 1, extent1 = 1, elem = (\<lambda>r c. Fin 1)\<rparr>"

definition single_svd :: svd_fn where
  "single_svd A U sigma =
     (if rows_of A = [[Fin 0]] then Inr (identity1, [Fin 0]) else Inl DecompositionError)"

text \<open>
  A source without samples. Its matrix has no column and there is no singular value: the
  decomposition has nothing to fill in the arrays it is given.
\<close>

definition empty_source :: Arrayset where
  "empty_source = \<lparr>elementType = t_float64, ndim = 1, shape = [2], arrays = []\<rparr>"

definition empty_svd :: svd_fn where
  "empty_svd A U sigma =
     (if extent1 A = 0 \<and> sigma = [] then Inr (U, sigma) else Inl DecompositionError)"


section \<open>Unfolding the model\<close>

lemma overflow_threshold_large: "1000 < overflow_threshold"
  by (simp add: overflow_threshold_def)

lemma to_double_small: "\<bar>x\<bar> \<le> 1000 \<Longrightarrow> to_double x = Fin x"
  using overflow_threshold_large by (auto simp add: to_double_def abs_le_iff)

lemmas model_defs =
  train_def set_machine_def centred_data_def training_mean_def load_data_def remove_mean_def
  mean_secondIndex_def assign_column_def subtract_column_def new_array2_def new_array1_def
  resize_array1_def transposeSelf_def getElementType_def getNDim_def getShape_def size_of_def get_def
  resize_def setInputSubtraction_def setInputDivision_def setBiases_def setWeights_def
  pow2_def dsub_def double_of_size_def size_t_sub_def uninitialised_def SVDPCATrainer_of_def
  rows_of_def Let_def to_double_small

lemma upt_small: "[0..<5] = [0, 1, 2, 3, 4]" "[0..<2] = [0, 1]"
  by (simp_all add: upt_rec)

lemma all_less_two: "(\<forall>i<2. P i) \<longleftrightarrow> P 0 \<and> P (Suc 0)"
  by (auto simp: less_2_cases_iff)

lemma map_nth_all: "map (\<lambda>i. f (xs ! i)) [0..<length xs] = map f xs"
  by (rule nth_equalityI) simp_all

lemma size_t_sub_one: "0 < n \<Longrightarrow> n < 2 ^ 64 \<Longrightarrow> size_t_sub n (Suc 0) = n - Suc 0"
  unfolding size_t_sub_def
  by (simp add: unat_sub_if' unat_of_nat word_less_nat_alt word_le_nat_alt unat_minus_one
      of_nat_inverse)

lemma train_after_svd:
  assumes "getElementType ar = t_float64" and "getNDim ar = 1"
    and "svd_call svd ar = Inr (U, sigma)"
  shows "train this svd machine eigen_values ar =
         set_machine this machine eigen_values (n_features_of ar) (n_samples_of ar) (training_mean ar) U sigma"
  using assms by (simp add: train_def centred_data_def training_mean_def Let_def)

lemma eigen_values_set_machine:
  "eigen_values_after (set_machine this machine ev nf ns mean U sigma) =
     map (\<lambda>i. ddiv (pow2 (sigma ! i)) (double_of_size (size_t_sub ns 1))) [0..<min nf ns]"
  by (simp add: set_machine_def Let_def new_array1_def resize_array1_def)

lemma machine_set_machine:
  "machine_after (set_machine this machine ev nf ns mean U sigma) =
     \<lparr>n_inputs = nf, n_outputs = min nf ns, input_sub = mean,
      input_div = (if m_zscore_convert this
         then PerAxis (map dsqrt (eigen_values_after (set_machine this machine ev nf ns mean U sigma)))
         else Scalar (Fin 1)),
      biases = Scalar (Fin 0), weights = transposeSelf U\<rparr>"
  by (simp add: set_machine_def Let_def new_array1_def resize_array1_def resize_def
      setInputSubtraction_def
      setInputDivision_def setBiases_def setWeights_def map_nth_all)

lemma example_svd_call:
  "svd_call example_svd example_source = Inr (identity2, [Fin 4, Fin 0])"
  by (simp add: example_svd_def example_source_def model_defs upt_small)

lemma single_svd_call: "svd_call single_svd single_source = Inr (identity1, [Fin 0])"
  by (simp add: single_svd_def single_source_def model_defs)

lemma empty_svd_call: "svd_call empty_svd empty_source = Inr (new_array2 2 0, [])"
  by (simp add: empty_svd_def empty_source_def model_defs)

section \<open>Loading and centring the data\<close>

lemma new_array2_extent [simp]:
  "extent0 (new_array2 n0 n1) = n0" "extent1 (new_array2 n0 n1) = n1"
  by (simp_all add: new_array2_def)

lemma assign_column_extent [simp]:
  "extent0 (assign_column d i v) = extent0 d" "extent1 (assign_column d i v) = extent1 d"
  by (simp_all add: assign_column_def)

lemma subtract_column_extent [simp]:
  "extent0 (subtract_column d i v) = extent0 d" "extent1 (subtract_column d i v) = extent1 d"
  by (simp_all add: subtract_column_def)

lemma load_data_Suc:
  "load_data ar (Suc n) d = assign_column (load_data ar n d) n (get ar n)"
  by (simp add: load_data_def)

lemma load_data_extent [simp]:
  "extent0 (load_data ar n d) = extent0 d" "extent1 (load_data ar n d) = extent1 d"
  by (induction n) (simp_all add: load_data_Suc, simp_all add: load_data_def)


lemma remove_mean_Suc:
  "remove_mean mean (Suc n) d = subtract_column (remove_mean mean n d) n mean"
  by (simp add: remove_mean_def)

lemma remove_mean_extent [simp]:
  "extent0 (remove_mean mean n d) = extent0 d" "extent1 (remove_mean mean n d) = extent1 d"
  by (induction n) (simp_all add: remove_mean_Suc, simp_all add: remove_mean_def)







section \<open>Arithmetic of the eigenvalues\<close>

text \<open>The square of a finite number can be an infinity.\<close>

lemma pow2_overflows: "pow2 (Fin (2 ^ 512)) = PInf"
  by (simp add: pow2_def to_double_def overflow_threshold_def)

lemma to_double_mono: "x \<le> y \<Longrightarrow> dle (to_double x) (to_double y)"
  using overflow_threshold_large by (auto simp add: to_double_def)

lemma to_double_nonneg: "0 \<le> x \<Longrightarrow> dle (Fin 0) (to_double x)"
  using overflow_threshold_large by (auto simp add: to_double_def)

lemma dle_PInf: "dle x PInf \<longleftrightarrow> x \<noteq> NaN"
  by (cases x) simp_all

text \<open>The eigenvalue of a finite, non-negative singular value.\<close>

lemma eigen_value_of_Fin:
  assumes "0 < d"
  shows "ddiv (pow2 (Fin a)) (Fin d) =
           (if overflow_threshold \<le> a * a then PInf else to_double (a * a / d))"
proof -
  have "0 \<le> a * a" by simp
  with overflow_threshold_large have "\<not> a * a \<le> - overflow_threshold"
    by linarith
  with assms show ?thesis
    by (simp add: pow2_def to_double_def)
qed

lemma eigen_value_nonneg:
  assumes "0 < d" and "dle (Fin 0) x"
  shows "dle (Fin 0) (ddiv (pow2 x) (Fin d))"
proof (cases x)
  case (Fin a)
  from assms(1) have "0 \<le> a * a / d" by simp
  then have "dle (Fin 0) (to_double (a * a / d))" by (rule to_double_nonneg)
  with assms(1) Fin show ?thesis
    by (simp add: eigen_value_of_Fin)
next
  case PInf
  with assms show ?thesis by (simp add: pow2_def)
next
  case NInf
  with assms show ?thesis by simp
next
  case NaN
  with assms show ?thesis by simp
qed

lemma eigen_value_not_NaN:
  assumes "0 < d" and "dle (Fin 0) x"
  shows "ddiv (pow2 x) (Fin d) \<noteq> NaN"
  using eigen_value_nonneg [OF assms] by (cases "ddiv (pow2 x) (Fin d)") simp_all

lemma eigen_value_mono:
  assumes "0 < d" and "dle (Fin 0) y" and "dle y x"
  shows "dle (ddiv (pow2 y) (Fin d)) (ddiv (pow2 x) (Fin d))"
proof (cases x)
  case (Fin a)
  with assms obtain b where y: "y = Fin b" and b: "0 \<le> b" "b \<le> a"
    by (cases y) simp_all
  then have le: "b * b \<le> a * a"
    by (simp add: mult_mono)
  show ?thesis
  proof (cases "overflow_threshold \<le> a * a")
    case True
    with assms(1) Fin have "ddiv (pow2 x) (Fin d) = PInf"
      by (simp add: eigen_value_of_Fin)
    with eigen_value_not_NaN [OF assms(1,2)] show ?thesis
      by (simp add: dle_PInf)
  next
    case False
    with le have "\<not> overflow_threshold \<le> b * b" by simp
    moreover from le assms(1) have "b * b / d \<le> a * a / d"
      by (simp add: divide_right_mono)
    then have "dle (to_double (b * b / d)) (to_double (a * a / d))"
      by (rule to_double_mono)
    ultimately show ?thesis
      using assms(1) Fin y False by (simp add: eigen_value_of_Fin)
  qed
next
  case PInf
  with eigen_value_not_NaN [OF assms(1,2)] assms(1) show ?thesis
    by (simp add: pow2_def dle_PInf)
next
  case NInf
  with assms show ?thesis by (cases y) simp_all
next
  case NaN
  with assms show ?thesis by (cases y) simp_all
qed

lemma not_finite_div_zero: "\<not> is_finite (ddiv x (Fin 0))"
  by (cases x) simp_all

lemma size_t_sub_zero: "size_t_sub 0 (Suc 0) = 2 ^ 64 - 1"
  by (simp add: size_t_sub_def unsigned_minus_1_eq_mask mask_eq_exp_minus_1)

lemma example_eigen_values:
  "eigen_values_after (train (SVDPCATrainer_of z) example_svd empty_machine [] example_source) =
     [Fin 4, Fin 0]"
  by (simp add: example_svd_def example_source_def identity2_def model_defs upt_small)

lemma single_eigen_values:
  "eigen_values_after (train (SVDPCATrainer_of z) single_svd empty_machine [] single_source) =
     [NaN]"
  by (simp add: single_svd_def single_source_def identity1_def model_defs)

section \<open>The eigenvalues\<close>

text \<open>
  Claim C1. For a source of \<open>double\<close> vectors on which the decomposition returns \<open>U\<close> and
  \<open>sigma\<close>, \<open>train\<close> leaves in the eigenvalue buffer \<open>n_sigma = min(n_features, n_samples)\<close>
  values, the \<open>i\<close>-th of which is \<open>sigma[i] * sigma[i] / (n_samples - 1)\<close>: the divisor is
  \<open>N - 1\<close>, not \<open>N\<close>.
\<close>

theorem train_eigen_values:
  assumes "getElementType ar = t_float64" and "getNDim ar = 1"
    and "n_samples_of ar < 2 ^ 64"
    and "svd_call svd ar = Inr (U, sigma)"
    and "length sigma = n_sigma_of ar"
  shows "length (eigen_values_after (train this svd machine eigen_values ar)) = n_sigma_of ar \<and>
         (\<forall>i<n_sigma_of ar.
            eigen_values_after (train this svd machine eigen_values ar) ! i =
              ddiv (dmul (sigma ! i) (sigma ! i)) (Fin (real (n_samples_of ar) - 1)))"
proof -
  have "double_of_size (size_t_sub (n_samples_of ar) 1) = Fin (real (n_samples_of ar) - 1)"
    if "i < n_sigma_of ar" for i
  proof -
    from that have "0 < n_samples_of ar" by simp
    with assms(3) show ?thesis
      by (simp add: size_t_sub_one double_of_size_def of_nat_diff)
  qed
  moreover have "train this svd machine eigen_values ar =
      set_machine this machine eigen_values (n_features_of ar) (n_samples_of ar) (training_mean ar) U sigma"
    using assms(1,2,4) by (rule train_after_svd)
  ultimately show ?thesis
    by (simp add: eigen_values_set_machine pow2_def)
qed

theorem train_eigen_values_witness:
  "getElementType example_source = t_float64 \<and> getNDim example_source = 1 \<and>
   n_samples_of example_source < 2 ^ 64 \<and>
   svd_call example_svd example_source = Inr (identity2, [Fin 4, Fin 0]) \<and>
   length [Fin 4, Fin 0] = n_sigma_of example_source \<and>
   length (eigen_values_after
     (train (SVDPCATrainer_of False) example_svd empty_machine [] example_source)) = 2 \<and>
   eigen_values_after
     (train (SVDPCATrainer_of False) example_svd empty_machine [] example_source) ! 0 = Fin 4 \<and>
   eigen_values_after
     (train (SVDPCATrainer_of False) example_svd empty_machine [] example_source) ! 1 = Fin 0"
proof -
  have h1: "getElementType example_source = t_float64"
    and h2: "getNDim example_source = 1"
    and h3: "n_samples_of example_source < 2 ^ 64"
    and h5: "length [Fin 4, Fin 0] = n_sigma_of example_source"
    by (simp_all add: example_source_def getElementType_def getNDim_def size_of_def getShape_def)
  have sizes: "n_sigma_of example_source = 2" "n_samples_of example_source = 5"
    by (simp_all add: example_source_def size_of_def getShape_def)
  from train_eigen_values [where ar = example_source and svd = example_svd and U = identity2
      and sigma = "[Fin 4, Fin 0]" and this = "SVDPCATrainer_of False"
      and machine = empty_machine and eigen_values = "[]", OF h1 h2 h3 example_svd_call h5]
  show ?thesis
    using h1 h2 h3 h5 example_svd_call by (simp add: sizes all_less_two to_double_small)
qed

section \<open>The weights and the sizes\<close>

text \<open>
  Claim C2. For a source of \<open>double\<close> vectors on which the decomposition returns \<open>U\<close>, the
  weight matrix of the machine is the transpose of \<open>U\<close>: row \<open>i\<close> of the weights is column
  \<open>i\<close> of \<open>U\<close>, in the order in which the decomposition delivered the columns.
\<close>

theorem train_weights:
  assumes "getElementType ar = t_float64" and "getNDim ar = 1"
    and "svd_call svd ar = Inr (U, sigma)"
  shows "weights (machine_after (train this svd machine eigen_values ar)) = transposeSelf U \<and>
         extent0 (weights (machine_after (train this svd machine eigen_values ar))) = extent1 U \<and>
         extent1 (weights (machine_after (train this svd machine eigen_values ar))) = extent0 U \<and>
         (\<forall>i j. elem (weights (machine_after (train this svd machine eigen_values ar))) i j =
                 elem U j i)"
proof -
  have "train this svd machine eigen_values ar =
      set_machine this machine eigen_values (n_features_of ar) (n_samples_of ar) (training_mean ar) U sigma"
    using assms by (rule train_after_svd)
  then show ?thesis
    by (simp add: machine_set_machine transposeSelf_def)
qed

theorem train_weights_witness:
  "getElementType example_source = t_float64 \<and> getNDim example_source = 1 \<and>
   svd_call example_svd example_source = Inr (identity2, [Fin 4, Fin 0]) \<and>
   rows_of (weights (machine_after
     (train (SVDPCATrainer_of False) example_svd empty_machine [] example_source))) =
     [[Fin 1, Fin 0], [Fin 0, Fin 1]]"
proof -
  have h1: "getElementType example_source = t_float64"
    and h2: "getNDim example_source = 1"
    by (simp_all add: example_source_def getElementType_def getNDim_def)
  from train_weights [where ar = example_source and svd = example_svd and U = identity2
      and sigma = "[Fin 4, Fin 0]" and this = "SVDPCATrainer_of False"
      and machine = empty_machine and eigen_values = "[]", OF h1 h2 example_svd_call]
  show ?thesis
    using h1 h2 example_svd_call
    by (simp add: rows_of_def transposeSelf_def identity2_def upt_small)
qed

text \<open>
  Claim C6. For a source of \<open>double\<close> vectors on which the decomposition returns, having
  filled the \<open>n_features\<close> x \<open>n_sigma\<close> array it was given for \<open>U\<close>, the number of
  eigenvalues, the number of rows of the weight matrix and the number of outputs the machine
  was resized to all are \<open>min(n_features, n_samples)\<close>.
\<close>

theorem train_sizes:
  assumes "getElementType ar = t_float64" and "getNDim ar = 1"
    and "svd_call svd ar = Inr (U, sigma)"
    and "extent0 U = n_features_of ar" and "extent1 U = n_sigma_of ar"
  shows "length (eigen_values_after (train this svd machine eigen_values ar)) =
           min (n_features_of ar) (n_samples_of ar) \<and>
         extent0 (weights (machine_after (train this svd machine eigen_values ar))) =
           min (n_features_of ar) (n_samples_of ar) \<and>
         n_outputs (machine_after (train this svd machine eigen_values ar)) =
           min (n_features_of ar) (n_samples_of ar)"
proof -
  have "train this svd machine eigen_values ar =
      set_machine this machine eigen_values (n_features_of ar) (n_samples_of ar) (training_mean ar) U sigma"
    using assms(1-3) by (rule train_after_svd)
  with assms(4,5) show ?thesis
    by (simp add: machine_set_machine eigen_values_set_machine transposeSelf_def)
qed

theorem train_sizes_witness:
  "getElementType example_source = t_float64 \<and> getNDim example_source = 1 \<and>
   svd_call example_svd example_source = Inr (identity2, [Fin 4, Fin 0]) \<and>
   extent0 identity2 = n_features_of example_source \<and>
   extent1 identity2 = n_sigma_of example_source \<and>
   n_features_of example_source = 2 \<and> n_samples_of example_source = 5 \<and>
   length (eigen_values_after
     (train (SVDPCATrainer_of False) example_svd empty_machine [] example_source)) = 2 \<and>
   extent0 (weights (machine_after
     (train (SVDPCATrainer_of False) example_svd empty_machine [] example_source))) = 2 \<and>
   n_outputs (machine_after
     (train (SVDPCATrainer_of False) example_svd empty_machine [] example_source)) = 2"
proof -
  have h1: "getElementType example_source = t_float64"
    and h2: "getNDim example_source = 1"
    and h4: "extent0 identity2 = n_features_of example_source"
    and h5: "extent1 identity2 = n_sigma_of example_source"
    and sizes: "n_features_of example_source = 2" "n_samples_of example_source = 5"
    by (simp_all add: example_source_def identity2_def getElementType_def getNDim_def
        size_of_def getShape_def)
  from train_sizes [where ar = example_source and svd = example_svd and U = identity2
      and sigma = "[Fin 4, Fin 0]" and this = "SVDPCATrainer_of False"
      and machine = empty_machine and eigen_values = "[]", OF h1 h2 example_svd_call h4 h5]
  show ?thesis
    using h1 h2 h4 h5 example_svd_call by (simp add: sizes)
qed

section \<open>The input division\<close>

text \<open>
  Claim C7. For a source of \<open>double\<close> vectors on which the decomposition returns: a trainer
  constructed with \<open>zscore_convert = false\<close> leaves the input division of the machine at
  the scalar 1.0; a trainer constructed with \<open>zscore_convert = true\<close> sets it to the vector
  of the square roots of the eigenvalues it has computed.
\<close>

theorem train_input_division:
  assumes "getElementType ar = t_float64" and "getNDim ar = 1"
    and "svd_call svd ar = Inr (U, sigma)"
  shows "input_div (machine_after
           (train (SVDPCATrainer_of zscore_convert) svd machine eigen_values ar)) =
           (if zscore_convert
            then PerAxis (map dsqrt (eigen_values_after
                   (train (SVDPCATrainer_of zscore_convert) svd machine eigen_values ar)))
            else Scalar (Fin 1))"
proof -
  have eq: "train (SVDPCATrainer_of zscore_convert) svd machine eigen_values ar =
      set_machine (SVDPCATrainer_of zscore_convert) machine eigen_values
        (n_features_of ar) (n_samples_of ar)
        (training_mean ar) U sigma"
    using assms by (rule train_after_svd)
  have "m_zscore_convert (SVDPCATrainer_of zscore_convert) = zscore_convert"
    by (simp add: SVDPCATrainer_of_def)
  then show ?thesis
    unfolding eq machine_set_machine by simp
qed

theorem train_input_division_witness:
  "getElementType example_source = t_float64 \<and> getNDim example_source = 1 \<and>
   svd_call example_svd example_source = Inr (identity2, [Fin 4, Fin 0]) \<and>
   input_div (machine_after
     (train (SVDPCATrainer_of False) example_svd empty_machine [] example_source)) =
     Scalar (Fin 1) \<and>
   input_div (machine_after
     (train (SVDPCATrainer_of True) example_svd empty_machine [] example_source)) =
     PerAxis [Fin 2, Fin 0]"
proof -
  have h1: "getElementType example_source = t_float64"
    and h2: "getNDim example_source = 1"
    by (simp_all add: example_source_def getElementType_def getNDim_def)
  from train_input_division [where ar = example_source and svd = example_svd and U = identity2
      and sigma = "[Fin 4, Fin 0]" and zscore_convert = False
      and machine = empty_machine and eigen_values = "[]", OF h1 h2 example_svd_call]
    train_input_division [where ar = example_source and svd = example_svd and U = identity2
      and sigma = "[Fin 4, Fin 0]" and zscore_convert = True
      and machine = empty_machine and eigen_values = "[]", OF h1 h2 example_svd_call]
  show ?thesis
    using h1 h2 example_svd_call by (simp add: example_eigen_values)
qed

section \<open>The two errors\<close>

text \<open>
  Claim C4. For a source whose element type is not \<open>t_float64\<close>, \<open>train\<close> throws a
  \<open>TypeError\<close> carrying the type found and \<open>t_float64\<close>, and leaves the machine and the
  eigenvalue buffer as they were; neither the samples nor the decomposition have a part in
  this, since the call ends the same way for any samples and any decomposition.
\<close>

theorem train_type_error:
  assumes "getElementType ar \<noteq> t_float64"
  shows "train this svd machine eigen_values ar =
           \<lparr>ended = Raised (TypeError (getElementType ar) t_float64),
            machine_after = machine, eigen_values_after = eigen_values\<rparr> \<and>
         (\<forall>svd' samples. train this svd' machine eigen_values (ar\<lparr>arrays := samples\<rparr>) =
                          train this svd machine eigen_values ar)"
  using assms by (simp add: train_def getElementType_def)

theorem train_type_error_witness:
  "getElementType int_source \<noteq> t_float64 \<and>
   train (SVDPCATrainer_of True) example_svd empty_machine [Fin 7] int_source =
     \<lparr>ended = Raised (TypeError t_int32 t_float64),
      machine_after = empty_machine, eigen_values_after = [Fin 7]\<rparr>"
proof -
  have h: "getElementType int_source \<noteq> t_float64"
    by (simp add: int_source_def getElementType_def)
  from train_type_error [OF h, of "SVDPCATrainer_of True" example_svd empty_machine "[Fin 7]"]
  show ?thesis
    using h by (simp add: int_source_def getElementType_def)
qed

text \<open>
  Claim C5, as amended. For a source whose element type is \<open>t_float64\<close> and whose rank is
  not 1, \<open>train\<close> throws a \<open>DimensionError\<close> carrying the rank found and 1, and leaves the
  machine and the eigenvalue buffer as they were, for any samples and any decomposition.
\<close>

theorem train_dimension_error:
  assumes "getElementType ar = t_float64" and "getNDim ar \<noteq> 1"
  shows "train this svd machine eigen_values ar =
           \<lparr>ended = Raised (DimensionError (getNDim ar) 1),
            machine_after = machine, eigen_values_after = eigen_values\<rparr> \<and>
         (\<forall>svd' samples. train this svd' machine eigen_values (ar\<lparr>arrays := samples\<rparr>) =
                          train this svd machine eigen_values ar)"
  using assms by (simp add: train_def getElementType_def getNDim_def)

theorem train_dimension_error_witness:
  "getElementType matrix_source = t_float64 \<and> getNDim matrix_source \<noteq> 1 \<and>
   train (SVDPCATrainer_of True) example_svd empty_machine [Fin 7] matrix_source =
     \<lparr>ended = Raised (DimensionError 2 1),
      machine_after = empty_machine, eigen_values_after = [Fin 7]\<rparr>"
proof -
  have h1: "getElementType matrix_source = t_float64"
    and h2: "getNDim matrix_source \<noteq> 1"
    by (simp_all add: matrix_source_def getElementType_def getNDim_def)
  from train_dimension_error [OF h1 h2,
      of "SVDPCATrainer_of True" example_svd empty_machine "[Fin 7]"]
  show ?thesis
    using h1 h2 by (simp add: matrix_source_def getNDim_def)
qed

text \<open>
  The claim C5 as it is written, for every source whose rank is not 1, fails on a source of
  matrices of integers: the element type is checked first, and the call throws a
  \<open>TypeError\<close>.
\<close>

theorem train_dimension_error_counterexample:
  "getNDim int_matrix_source \<noteq> 1 \<and>
   ended (train (SVDPCATrainer_of False) example_svd empty_machine [] int_matrix_source) =
     Raised (TypeError t_int32 t_float64) \<and>
   ended (train (SVDPCATrainer_of False) example_svd empty_machine [] int_matrix_source) \<noteq>
     Raised (DimensionError (getNDim int_matrix_source) 1)"
  by (simp add: train_def int_matrix_source_def getElementType_def getNDim_def)

section \<open>The overload without eigenvalues\<close>

text \<open>
  Claim C9. For every machine, every source and every decomposition, the overload of
  \<open>train\<close> without the eigenvalue parameter ends as the overload with it does, on any
  eigenvalue buffer, and leaves the machine in the same state.
\<close>

theorem train2_discards_eigen_values:
  "train2 this svd machine ar =
     (ended (train this svd machine eigen_values ar),
      machine_after (train this svd machine eigen_values ar))"
  by (simp add: train2_def train_def Let_def set_machine_def new_array1_def resize_array1_def
      split: sum.split)

section \<open>The mean\<close>



section \<open>The order of the eigenvalues\<close>

text \<open>
  Claim C8, as amended. For a source of \<open>double\<close> vectors whose number of samples is not 1,
  on which the decomposition returns singular values that are non-negative and in
  non-increasing order, the eigenvalues are non-negative and in non-increasing order.
\<close>

theorem train_eigen_values_ordered:
  assumes "getElementType ar = t_float64" and "getNDim ar = 1"
    and "n_samples_of ar \<noteq> 1" and "n_samples_of ar < 2 ^ 64"
    and "svd_call svd ar = Inr (U, sigma)"
    and "length sigma = n_sigma_of ar"
    and "non_negative sigma" and "non_increasing sigma"
  shows "non_negative (eigen_values_after (train this svd machine eigen_values ar)) \<and>
         non_increasing (eigen_values_after (train this svd machine eigen_values ar))"
proof -
  define d where "d = real (size_t_sub (n_samples_of ar) 1)"
  define g where "g x = ddiv (pow2 x) (Fin d)" for x
  have "train this svd machine eigen_values ar =
      set_machine this machine eigen_values (n_features_of ar) (n_samples_of ar) (training_mean ar) U sigma"
    using assms(1,2,5) by (rule train_after_svd)
  then have ev: "eigen_values_after (train this svd machine eigen_values ar) = map g sigma"
    using assms(6) map_nth_all [of g sigma]
    by (simp add: eigen_values_set_machine g_def d_def double_of_size_def)
  show ?thesis
  proof (cases "n_samples_of ar = 0")
    case True
    with assms(6) have "sigma = []" by simp
    with ev show ?thesis by (simp add: non_negative_def non_increasing_def)
  next
    case False
    with assms(3,4) have "0 < d"
      by (simp add: d_def size_t_sub_one)
    have nn: "dle (Fin 0) x" if "x \<in> set sigma" for x
      using assms(7) that by (simp add: non_negative_def list_all_iff)
    have "non_negative (map g sigma)"
      using nn \<open>0 < d\<close> by (simp add: non_negative_def list_all_iff g_def eigen_value_nonneg)
    moreover have "sorted_wrt (\<lambda>x y. dle (g y) (g x)) sigma"
      using assms(8) unfolding non_increasing_def
    proof (rule sorted_wrt_mono_rel [rotated])
      fix x y
      assume "x \<in> set sigma" "y \<in> set sigma" "dle y x"
      with nn \<open>0 < d\<close> show "dle (g y) (g x)"
        by (simp add: g_def eigen_value_mono)
    qed
    then have "non_increasing (map g sigma)"
      by (simp add: non_increasing_def sorted_wrt_map)
    ultimately show ?thesis by (simp add: ev)
  qed
qed


theorem train_eigen_values_ordered_witness:
  "getElementType example_source = t_float64 \<and> getNDim example_source = 1 \<and>
   n_samples_of example_source \<noteq> 1 \<and> n_samples_of example_source < 2 ^ 64 \<and>
   svd_call example_svd example_source = Inr (identity2, [Fin 4, Fin 0]) \<and>
   length [Fin 4, Fin 0] = n_sigma_of example_source \<and>
   non_negative [Fin 4, Fin 0] \<and> non_increasing [Fin 4, Fin 0] \<and>
   non_negative (eigen_values_after
     (train (SVDPCATrainer_of False) example_svd empty_machine [] example_source)) \<and>
   non_increasing (eigen_values_after
     (train (SVDPCATrainer_of False) example_svd empty_machine [] example_source))"
proof -
  have h1: "getElementType example_source = t_float64"
    and h2: "getNDim example_source = 1"
    and h3: "n_samples_of example_source \<noteq> 1"
    and h4: "n_samples_of example_source < 2 ^ 64"
    and h6: "length [Fin 4, Fin 0] = n_sigma_of example_source"
    by (simp_all add: example_source_def getElementType_def getNDim_def size_of_def getShape_def)
  have h7: "non_negative [Fin 4, Fin 0]" and h8: "non_increasing [Fin 4, Fin 0]"
    by (simp_all add: non_negative_def non_increasing_def)
  from train_eigen_values_ordered [where ar = example_source and svd = example_svd
      and U = identity2 and sigma = "[Fin 4, Fin 0]" and this = "SVDPCATrainer_of False"
      and machine = empty_machine and eigen_values = "[]",
      OF h1 h2 h3 h4 example_svd_call h6 h7 h8]
  show ?thesis
    using h1 h2 h3 h4 h6 h7 h8 example_svd_call by (intro conjI) simp_all
qed

text \<open>
  The claim C8 as it is written, for every source, fails on a source of a single sample:
  the centred matrix is zero, its singular value is 0, and the eigenvalue is \<open>0 / 0\<close>, a NaN,
  which is not non-negative.
\<close>

theorem train_eigen_values_ordered_counterexample:
  "getElementType single_source = t_float64 \<and> getNDim single_source = 1 \<and>
   svd_call single_svd single_source = Inr (identity1, [Fin 0]) \<and>
   non_negative [Fin 0] \<and> non_increasing [Fin 0] \<and>
   eigen_values_after
     (train (SVDPCATrainer_of False) single_svd empty_machine [] single_source) = [NaN] \<and>
   \<not> non_negative (eigen_values_after
     (train (SVDPCATrainer_of False) single_svd empty_machine [] single_source))"
proof -
  have "getElementType single_source = t_float64" and "getNDim single_source = 1"
    by (simp_all add: single_source_def getElementType_def getNDim_def)
  moreover have "non_negative [Fin 0]" and "non_increasing [Fin 0]" and "\<not> non_negative [NaN]"
    by (simp_all add: non_negative_def non_increasing_def)
  ultimately show ?thesis
    by (simp add: single_svd_call single_eigen_values)
qed

section \<open>A single sample\<close>

text \<open>
  Claim C10. For a source of \<open>double\<close> vectors on which the decomposition returns, \<open>train\<close>
  returns without an error whatever the number of samples: nothing guards the division.
  With exactly one sample the divisor \<open>n_samples - 1\<close> is zero, and every eigenvalue is the
  quotient of a square by zero: an infinity or a NaN, never a finite number. The divisor is
  the positive number \<open>n_samples - 1\<close> exactly when there are two samples or more, and then
  every eigenvalue is the quotient by it. Without any sample the subtraction wraps around
  to \<open>2^64 - 1\<close>, and no eigenvalue is computed.
\<close>

theorem train_divides_by_zero:
  assumes "getElementType ar = t_float64" and "getNDim ar = 1"
    and "n_samples_of ar < 2 ^ 64"
    and "svd_call svd ar = Inr (U, sigma)"
    and "length sigma = n_sigma_of ar"
  shows "ended (train this svd machine eigen_values ar) = Returned \<and>
         (n_samples_of ar = 1 \<longrightarrow>
            double_of_size (size_t_sub (n_samples_of ar) 1) = Fin 0 \<and>
            (\<forall>i<n_sigma_of ar.
               eigen_values_after (train this svd machine eigen_values ar) ! i =
                 ddiv (pow2 (sigma ! i)) (Fin 0) \<and>
               \<not> is_finite (eigen_values_after (train this svd machine eigen_values ar) ! i))) \<and>
         ((double_of_size (size_t_sub (n_samples_of ar) 1) = Fin (real (n_samples_of ar) - 1) \<and>
           0 < real (n_samples_of ar) - 1) \<longleftrightarrow> 2 \<le> n_samples_of ar) \<and>
         (2 \<le> n_samples_of ar \<longrightarrow>
            (\<forall>i<n_sigma_of ar.
               eigen_values_after (train this svd machine eigen_values ar) ! i =
                 ddiv (pow2 (sigma ! i)) (Fin (real (n_samples_of ar) - 1)))) \<and>
         (n_samples_of ar = 0 \<longrightarrow>
            double_of_size (size_t_sub (n_samples_of ar) 1) = Fin (2 ^ 64 - 1) \<and>
            eigen_values_after (train this svd machine eigen_values ar) = [])"
proof (intro conjI impI)
  have eq: "train this svd machine eigen_values ar =
      set_machine this machine eigen_values (n_features_of ar) (n_samples_of ar)
        (training_mean ar) U sigma"
    using assms(1,2,4) by (rule train_after_svd)
  have two: "double_of_size (size_t_sub (n_samples_of ar) 1) = Fin (real (n_samples_of ar) - 1)"
    if "2 \<le> n_samples_of ar"
    using that assms(3) by (simp add: size_t_sub_one double_of_size_def of_nat_diff)
  show "ended (train this svd machine eigen_values ar) = Returned"
    by (simp add: eq set_machine_def Let_def)
  show "double_of_size (size_t_sub (n_samples_of ar) 1) = Fin 0" if "n_samples_of ar = 1"
    using that by (simp add: size_t_sub_def double_of_size_def)
  show "\<forall>i<n_sigma_of ar.
      eigen_values_after (train this svd machine eigen_values ar) ! i =
        ddiv (pow2 (sigma ! i)) (Fin 0) \<and>
      \<not> is_finite (eigen_values_after (train this svd machine eigen_values ar) ! i)"
    if "n_samples_of ar = 1"
    using that
    by (simp add: eq eigen_values_set_machine size_t_sub_def double_of_size_def
        not_finite_div_zero)
  show "(double_of_size (size_t_sub (n_samples_of ar) 1) = Fin (real (n_samples_of ar) - 1) \<and>
      0 < real (n_samples_of ar) - 1) \<longleftrightarrow> 2 \<le> n_samples_of ar"
  proof
    assume "double_of_size (size_t_sub (n_samples_of ar) 1) = Fin (real (n_samples_of ar) - 1) \<and>
      0 < real (n_samples_of ar) - 1"
    then have "1 < real (n_samples_of ar)" by simp
    then show "2 \<le> n_samples_of ar" by simp
  next
    assume "2 \<le> n_samples_of ar"
    with two show "double_of_size (size_t_sub (n_samples_of ar) 1) =
        Fin (real (n_samples_of ar) - 1) \<and> 0 < real (n_samples_of ar) - 1"
      by simp
  qed
  show "\<forall>i<n_sigma_of ar.
      eigen_values_after (train this svd machine eigen_values ar) ! i =
        ddiv (pow2 (sigma ! i)) (Fin (real (n_samples_of ar) - 1))"
    if "2 \<le> n_samples_of ar"
    using two [OF that] by (simp add: eq eigen_values_set_machine)
  show "double_of_size (size_t_sub (n_samples_of ar) 1) = Fin (2 ^ 64 - 1)"
    if "n_samples_of ar = 0"
    using that by (simp add: size_t_sub_zero double_of_size_def of_nat_diff)
  show "eigen_values_after (train this svd machine eigen_values ar) = []"
    if "n_samples_of ar = 0"
    using that by (simp add: eq eigen_values_set_machine)
qed

theorem train_divides_by_zero_witness:
  "getElementType single_source = t_float64 \<and> getNDim single_source = 1 \<and>
   n_samples_of single_source < 2 ^ 64 \<and>
   svd_call single_svd single_source = Inr (identity1, [Fin 0]) \<and>
   length [Fin 0] = n_sigma_of single_source \<and>
   n_samples_of single_source = 1 \<and>
   ended (train (SVDPCATrainer_of False) single_svd empty_machine [] single_source) = Returned \<and>
   eigen_values_after
     (train (SVDPCATrainer_of False) single_svd empty_machine [] single_source) ! 0 =
     ddiv (pow2 (Fin 0)) (Fin 0) \<and>
   \<not> is_finite (eigen_values_after
     (train (SVDPCATrainer_of False) single_svd empty_machine [] single_source) ! 0) \<and>
   getElementType example_source = t_float64 \<and> getNDim example_source = 1 \<and>
   n_samples_of example_source < 2 ^ 64 \<and>
   svd_call example_svd example_source = Inr (identity2, [Fin 4, Fin 0]) \<and>
   length [Fin 4, Fin 0] = n_sigma_of example_source \<and>
   2 \<le> n_samples_of example_source \<and>
   double_of_size (size_t_sub (n_samples_of example_source) 1) = Fin 4 \<and>
   eigen_values_after
     (train (SVDPCATrainer_of False) example_svd empty_machine [] example_source) ! 0 =
     ddiv (pow2 (Fin 4)) (Fin 4) \<and>
   getElementType empty_source = t_float64 \<and> getNDim empty_source = 1 \<and>
   n_samples_of empty_source < 2 ^ 64 \<and>
   svd_call empty_svd empty_source = Inr (new_array2 2 0, []) \<and>
   length [] = n_sigma_of empty_source \<and>
   n_samples_of empty_source = 0 \<and>
   double_of_size (size_t_sub (n_samples_of empty_source) 1) = Fin (2 ^ 64 - 1) \<and>
   eigen_values_after
     (train (SVDPCATrainer_of False) empty_svd empty_machine [] empty_source) = []"
proof -
  have s1: "getElementType single_source = t_float64"
    and s2: "getNDim single_source = 1"
    and s3: "n_samples_of single_source < 2 ^ 64"
    and s5: "length [Fin 0] = n_sigma_of single_source"
    and s6: "n_samples_of single_source = 1"
    and s7: "0 < n_sigma_of single_source"
    by (simp_all add: single_source_def getElementType_def getNDim_def size_of_def getShape_def)
  have e1: "getElementType example_source = t_float64"
    and e2: "getNDim example_source = 1"
    and e3: "n_samples_of example_source < 2 ^ 64"
    and e5: "length [Fin 4, Fin 0] = n_sigma_of example_source"
    and e6: "2 \<le> n_samples_of example_source"
    and e7: "0 < n_sigma_of example_source"
    and e8: "real (n_samples_of example_source) - 1 = 4"
    by (simp_all add: example_source_def getElementType_def getNDim_def size_of_def getShape_def)
  have z1: "getElementType empty_source = t_float64"
    and z2: "getNDim empty_source = 1"
    and z3: "n_samples_of empty_source < 2 ^ 64"
    and z5: "length [] = n_sigma_of empty_source"
    and z6: "n_samples_of empty_source = 0"
    by (simp_all add: empty_source_def getElementType_def getNDim_def size_of_def getShape_def)
  note ws = train_divides_by_zero [where ar = single_source and svd = single_svd
      and U = identity1 and sigma = "[Fin 0]" and this = "SVDPCATrainer_of False"
      and machine = empty_machine and eigen_values = "[]", OF s1 s2 s3 single_svd_call s5]
  note we = train_divides_by_zero [where ar = example_source and svd = example_svd
      and U = identity2 and sigma = "[Fin 4, Fin 0]" and this = "SVDPCATrainer_of False"
      and machine = empty_machine and eigen_values = "[]", OF e1 e2 e3 example_svd_call e5]
  note wz = train_divides_by_zero [where ar = empty_source and svd = empty_svd
      and U = "new_array2 2 0" and sigma = "[]" and this = "SVDPCATrainer_of False"
      and machine = empty_machine and eigen_values = "[]", OF z1 z2 z3 empty_svd_call z5]
  from ws s6 s7 have a:
    "ended (train (SVDPCATrainer_of False) single_svd empty_machine [] single_source) = Returned"
    "eigen_values_after
       (train (SVDPCATrainer_of False) single_svd empty_machine [] single_source) ! 0 =
       ddiv (pow2 (Fin 0)) (Fin 0)"
    "\<not> is_finite (eigen_values_after
       (train (SVDPCATrainer_of False) single_svd empty_machine [] single_source) ! 0)"
    by auto
  from we e6 e7 have
    "double_of_size (size_t_sub (n_samples_of example_source) 1) =
       Fin (real (n_samples_of example_source) - 1)"
    "eigen_values_after
       (train (SVDPCATrainer_of False) example_svd empty_machine [] example_source) ! 0 =
       ddiv (pow2 ([Fin 4, Fin 0] ! 0)) (Fin (real (n_samples_of example_source) - 1))"
    by blast+
  then have b:
    "double_of_size (size_t_sub (n_samples_of example_source) 1) = Fin 4"
    "eigen_values_after
       (train (SVDPCATrainer_of False) example_svd empty_machine [] example_source) ! 0 =
       ddiv (pow2 (Fin 4)) (Fin 4)"
    by (simp_all add: e8)
  from wz z6 have c:
    "double_of_size (size_t_sub (n_samples_of empty_source) 1) = Fin (2 ^ 64 - 1)"
    "eigen_values_after
       (train (SVDPCATrainer_of False) empty_svd empty_machine [] empty_source) = []"
    by blast+
  from s1 s2 s3 single_svd_call s5 s6 a e1 e2 e3 example_svd_call e5 e6 b
    z1 z2 z3 empty_svd_call z5 z6 c
  show ?thesis
    by (intro conjI)
qed

end
